theory Spec2Isabelle
  imports Main "HOL-Library.Monad_Syntax"
begin

section \<open>Decoded API values\<close>

text \<open>
  The program decodes every API response into \<^verbatim>\<open>interface{}\<close> values and unpacks them
  with type assertions. \<open>json\<close> is the dynamic value \<^verbatim>\<open>encoding/json\<close> produces for an
  \<^verbatim>\<open>interface{}\<close> target: \<^verbatim>\<open>nil\<close>, \<^verbatim>\<open>bool\<close>, \<^verbatim>\<open>float64\<close>, \<^verbatim>\<open>string\<close>,
  \<^verbatim>\<open>[]interface{}\<close> and \<^verbatim>\<open>map[string]interface{}\<close>. The program never reads the payload
  of a number or a boolean, only the dynamic type, so a number carries an \<open>int\<close>. A Go
  map is an association list read with \<open>map_of\<close>: the first binding of a key counts.
\<close>

datatype json =
    JNull
  | JBool bool
  | JNum int
  | JStr string
  | JArr "json list"
  | JObj "(string \<times> json) list"

type_synonym gomap = "(string \<times> json) list"

text \<open>\<^verbatim>\<open>data[key]\<close>: the zero value \<^verbatim>\<open>nil\<close> when the key is missing.\<close>

definition index :: "gomap \<Rightarrow> string \<Rightarrow> json" where
  "index data key = (case map_of data key of None \<Rightarrow> JNull | Some v \<Rightarrow> v)"

text \<open>
  Type assertions. \<open>None\<close> is the failed assertion: a run-time panic in the
  one-result form \<^verbatim>\<open>v.(T)\<close>, and \<^verbatim>\<open>ok == false\<close> in the two-result form
  \<^verbatim>\<open>x, ok := v.(T)\<close>.
\<close>

fun assert_string :: "json \<Rightarrow> string option" where
  "assert_string (JStr s) = Some s"
| "assert_string _ = None"

fun assert_slice :: "json \<Rightarrow> json list option" where
  "assert_slice (JArr xs) = Some xs"
| "assert_slice _ = None"

fun assert_map :: "json \<Rightarrow> gomap option" where
  "assert_map (JObj m) = Some m"
| "assert_map _ = None"

text \<open>\<^verbatim>\<open>xs[0]\<close>: an index out of range panics.\<close>

fun first_elem :: "'a list \<Rightarrow> 'a option" where
  "first_elem [] = None"
| "first_elem (x # _) = Some x"

section \<open>Data model (main.go, lines 15 to 70)\<close>

record ZabbixError =
  Code :: int
  Message :: string
  Data :: string

record ZabbixResponse =
  Jsonrpc :: string
  Result :: json
  Error :: ZabbixError
  resp_Id :: int

record Group =
  GroupID :: string
  Group_Name :: string

record Template =
  TemplateID :: string
  Template_Name :: string

record Interface =
  InterfaceID :: string
  Interface_IPAddress :: string
  Port :: string
  Type :: string

text \<open>
  The \<^verbatim>\<open>XMLName\<close> field of \<^verbatim>\<open>Host\<close> only names the XML element and is never assigned;
  it is left out.
\<close>

record Host =
  HostID :: string
  HostName :: string
  IPAddress :: string
  Status :: string
  Availability :: string
  Notes :: string
  Groups :: "Group list"
  Templates :: "Template list"
  Interfaces :: "Interface list"

record Metric =
  ItemID :: string
  Metric_Name :: string
  Key :: string
  Value :: string

record Trigger =
  TriggerID :: string
  Description :: string
  Priority :: string
  Trigger_Status :: string

section \<open>Projection of a host record (exportHostsWithDetails, lines 183 to 221)\<close>

text \<open>Lines 184 to 189. Both comparisons assert the flag to be a string.\<close>

definition availability :: "gomap \<Rightarrow> string option" where
  "availability data =
     do {
       a \<leftarrow> assert_string (index data ''available'');
       if a = ''1'' then Some ''Available''
       else do {
         b \<leftarrow> assert_string (index data ''available'');
         if b = ''0'' then Some ''Unavailable'' else Some ''Unknown''
       }
     }"

text \<open>Lines 204 to 210: the loop over the groups.\<close>

fun groups_of :: "json list \<Rightarrow> Group list option" where
  "groups_of [] = Some []"
| "groups_of (g # gs) =
     do {
       groupData \<leftarrow> assert_map g;
       gid \<leftarrow> assert_string (index groupData ''groupid'');
       nm \<leftarrow> assert_string (index groupData ''name'');
       rest \<leftarrow> groups_of gs;
       Some (\<lparr>GroupID = gid, Group_Name = nm\<rparr> # rest)
     }"

text \<open>Lines 214 to 220: the loop over the templates.\<close>

fun templates_of :: "json list \<Rightarrow> Template list option" where
  "templates_of [] = Some []"
| "templates_of (t # ts) =
     do {
       templateData \<leftarrow> assert_map t;
       tid \<leftarrow> assert_string (index templateData ''templateid'');
       nm \<leftarrow> assert_string (index templateData ''name'');
       rest \<leftarrow> templates_of ts;
       Some (\<lparr>TemplateID = tid, Template_Name = nm\<rparr> # rest)
     }"

text \<open>
  Lines 183 to 221: one element of the enumeration result becomes a \<open>Host\<close>, or the
  process panics (\<open>None\<close>). \<open>description\<close>, \<open>groups\<close> and \<open>parentTemplates\<close> are read
  with the two-result assertion and skipped when it fails.
\<close>

definition host_of_item :: "json \<Rightarrow> Host option" where
  "host_of_item item =
     do {
       data \<leftarrow> assert_map item;
       avail \<leftarrow> availability data;
       hostid \<leftarrow> assert_string (index data ''hostid'');
       name \<leftarrow> assert_string (index data ''name'');
       ifaces \<leftarrow> assert_slice (index data ''interfaces'');
       iface0 \<leftarrow> first_elem ifaces;
       ifaceData \<leftarrow> assert_map iface0;
       ip \<leftarrow> assert_string (index ifaceData ''ip'');
       status \<leftarrow> assert_string (index data ''status'');
       let host = \<lparr>HostID = hostid, HostName = name, IPAddress = ip, Status = status,
                    Availability = avail, Notes = [], Groups = [], Templates = [],
                    Interfaces = []\<rparr>;
       let host = (case assert_string (index data ''description'') of
                     Some desc \<Rightarrow> host\<lparr>Notes := desc\<rparr>
                   | None \<Rightarrow> host);
       host \<leftarrow> (case assert_slice (index data ''groups'') of
                  Some groups \<Rightarrow>
                    do { gs \<leftarrow> groups_of groups; Some (host\<lparr>Groups := Groups host @ gs\<rparr>) }
                | None \<Rightarrow> Some host);
       host \<leftarrow> (case assert_slice (index data ''parentTemplates'') of
                  Some templates \<Rightarrow>
                    do { ts \<leftarrow> templates_of templates;
                         Some (host\<lparr>Templates := Templates host @ ts\<rparr>) }
                | None \<Rightarrow> Some host);
       Some host
     }"

section \<open>Projection of metric and trigger records\<close>

text \<open>Lines 265 to 274: every field is an unchecked assertion.\<close>

fun metrics_of :: "json list \<Rightarrow> Metric list option" where
  "metrics_of [] = Some []"
| "metrics_of (item # items) =
     do {
       data \<leftarrow> assert_map item;
       itemid \<leftarrow> assert_string (index data ''itemid'');
       nm \<leftarrow> assert_string (index data ''name'');
       k \<leftarrow> assert_string (index data ''key_'');
       v \<leftarrow> assert_string (index data ''lastvalue'');
       rest \<leftarrow> metrics_of items;
       Some (\<lparr>ItemID = itemid, Metric_Name = nm, Key = k, Value = v\<rparr> # rest)
     }"

text \<open>Lines 335 to 342.\<close>

definition getStringFromMap :: "gomap \<Rightarrow> string \<Rightarrow> string" where
  "getStringFromMap data key =
     (case map_of data key of
        Some val \<Rightarrow> (case assert_string val of Some strVal \<Rightarrow> strVal | None \<Rightarrow> [])
      | None \<Rightarrow> [])"

text \<open>Lines 320 to 325: the projection of one trigger record map.\<close>

definition trigger_of_map :: "gomap \<Rightarrow> Trigger" where
  "trigger_of_map data =
     \<lparr>TriggerID = getStringFromMap data ''triggerid'',
      Description = getStringFromMap data ''description'',
      Priority = getStringFromMap data ''priority'',
      Trigger_Status = getStringFromMap data ''status''\<rparr>"

text \<open>Lines 318 to 327: the element itself is asserted to be a map.\<close>

fun triggers_of :: "json list \<Rightarrow> Trigger list option" where
  "triggers_of [] = Some []"
| "triggers_of (trigger # rest) =
     do {
       data \<leftarrow> assert_map trigger;
       trs \<leftarrow> triggers_of rest;
       Some (trigger_of_map data # trs)
     }"

section \<open>The world outside the process\<close>

text \<open>
  The four API calls. The JSON-RPC envelope (\<open>jsonrpc\<close>, \<open>method\<close>, \<open>params\<close>,
  \<open>auth\<close>, \<open>id\<close>) is fixed by the method, so a request is the method with the values the
  program puts in: the credentials for \<open>user.login\<close> (lines 115 to 123), the token for
  \<open>host.get\<close> (153 to 164), the token and the host id as a scalar for \<open>item.get\<close>
  (240 to 249), the token and the host ids as a list for \<open>trigger.get\<close> (283 to 292).
\<close>

datatype request =
    UserLogin string string
  | HostGet string
  | ItemGet string string
  | TriggerGet string "string list"

text \<open>The values handed to the two writers as \<^verbatim>\<open>data interface{}\<close>.\<close>

datatype payload =
    PHost Host
  | PMetrics "Metric list"
  | PTriggers "Trigger list"

text \<open>
  The lines the program prints, one constructor per format string of main.go, with the
  formatted arguments:
  \<open>XmlEncodeError\<close> 76, \<open>XmlWriteError\<close> 82, \<open>JsonEncodeError\<close> 90, \<open>JsonWriteError\<close> 95,
  \<open>EnvLoadError\<close> 102, \<open>ApiRequestError\<close> 127 and 168, \<open>ApiDecodeError\<close> 133 and 174,
  \<open>AuthError\<close> 137, \<open>TokenMissing\<close> 142, \<open>ExportFinished\<close> 147, \<open>NoHosts\<close> 178,
  \<open>HostsFinished\<close> 234, \<open>MetricsRequestError\<close> 253, \<open>MetricsDecodeError\<close> 260,
  \<open>MetricsExported\<close> 277, \<open>TriggersRequestError\<close> 296, \<open>TriggersResponse\<close> 301,
  \<open>TriggersDecodeError\<close> 306, \<open>NoTriggers\<close> 312, \<open>TriggersExported\<close> 331.
\<close>

datatype line =
    XmlEncodeError string
  | XmlWriteError string string
  | JsonEncodeError string
  | JsonWriteError string string
  | EnvLoadError
  | ApiRequestError string
  | ApiDecodeError string
  | AuthError string
  | TokenMissing
  | ExportFinished
  | NoHosts
  | HostsFinished
  | MetricsRequestError string string
  | MetricsDecodeError string string
  | MetricsExported string string
  | TriggersRequestError string string
  | TriggersResponse string string
  | TriggersDecodeError string string
  | NoTriggers string
  | TriggersExported string string

text \<open>
  What the run has done so far: the HTTP calls sent (URL and request, in order), the
  directories \<^verbatim>\<open>os.MkdirAll\<close> has made sure exist, the files written with their contents,
  and the lines printed. A directory is what its path resolves to, not the path as
  written, and a file is a name in a directory: writing under two paths that name one
  directory overwrites one file.
\<close>

record state =
  sent :: "(string \<times> request) list"
  dirs :: "string set"
  files :: "string \<times> string \<Rightarrow> string option"
  console :: "line list"

text \<open>
  Everything the program does not decide itself is a field of the world:
  \<^item> \<open>dotenv_ok\<close>: whether \<^verbatim>\<open>godotenv.Load\<close> succeeds; \<open>getenv\<close>: \<^verbatim>\<open>os.Getenv\<close>;
  \<^item> \<open>post n url req\<close>: what the \<open>n\<close>-th HTTP call of the run (counted from 0) returns,
    a transport error (\<open>Inl\<close>) or a response body (\<open>Inr\<close>);
  \<^item> \<open>unmarshal\<close>: \<^verbatim>\<open>json.Unmarshal\<close> of a body into a \<open>ZabbixResponse\<close>;
  \<^item> \<open>xml_MarshalIndent\<close>, \<open>json_MarshalIndent\<close>: the two library encoders;
  \<^item> \<open>mkdir_err\<close>, \<open>write_err\<close>: the error, if any, with which the operating system
    refuses to create a directory or to write a file, given what the run has done so
    far;
  \<^item> \<open>resolve\<close>: the directory a path names. Different paths can name one directory
    (a trailing or repeated slash, \<^verbatim>\<open>.\<close> and \<^verbatim>\<open>..\<close>, a link, letter case on some file
    systems); \<open>resolve\<close> maps all of them to one representative, so that two paths name
    the same directory exactly when they resolve to the same value.
\<close>

record world =
  dotenv_ok :: bool
  getenv :: "string \<Rightarrow> string"
  post :: "nat \<Rightarrow> string \<Rightarrow> request \<Rightarrow> string + string"
  unmarshal :: "string \<Rightarrow> string + ZabbixResponse"
  xml_MarshalIndent :: "payload \<Rightarrow> string + string"
  json_MarshalIndent :: "payload \<Rightarrow> string + string"
  mkdir_err :: "state \<Rightarrow> string \<Rightarrow> string option"
  write_err :: "state \<Rightarrow> string \<Rightarrow> string option"
  resolve :: "string \<Rightarrow> string"

definition init :: state where
  "init = \<lparr>sent = [], dirs = {}, files = Map.empty, console = []\<rparr>"

text \<open>
  The process ends early in two ways: \<^verbatim>\<open>log.Fatal\<close>/\<^verbatim>\<open>log.Fatalf\<close> print a line and
  exit with status 1, and a failed one-result type assertion or an index out of range
  panics. An outcome is \<open>Inl\<close> of the abort and the state reached, or \<open>Inr\<close> of the state
  when the function returns.
\<close>

datatype abort = Fatal line | Panic

type_synonym outcome = "abort \<times> state + state"

definition emit :: "line \<Rightarrow> state \<Rightarrow> state" where
  "emit l s = s\<lparr>console := console s @ [l]\<rparr>"

definition fatal :: "line \<Rightarrow> state \<Rightarrow> outcome" where
  "fatal l s = Inl (Fatal l, emit l s)"

definition Post :: "world \<Rightarrow> state \<Rightarrow> string \<Rightarrow> request \<Rightarrow> (string + string) \<times> state" where
  "Post w s url req = (post w (length (sent s)) url req, s\<lparr>sent := sent s @ [(url, req)]\<rparr>)"

text \<open>
  The two parts of a path: the directory part, everything before its last slash, and
  the name after it.
\<close>

definition dirname :: "string \<Rightarrow> string" where
  "dirname p = rev (tl (dropWhile (\<lambda>c. c \<noteq> CHR ''/'') (rev p)))"

definition basename :: "string \<Rightarrow> string" where
  "basename p = rev (takeWhile (\<lambda>c. c \<noteq> CHR ''/'') (rev p))"

text \<open>
  \<^verbatim>\<open>os.MkdirAll\<close> returns an error or makes sure the directory exists (creating an
  existing directory is no error). The directory recorded is the one the path resolves
  to; the ancestors created on the way are not recorded.
\<close>

definition os_MkdirAll :: "world \<Rightarrow> state \<Rightarrow> string \<Rightarrow> string option \<times> state" where
  "os_MkdirAll w s path =
     (case mkdir_err w s path of
        Some err \<Rightarrow> (Some err, s)
      | None \<Rightarrow> (None, s\<lparr>dirs := insert (resolve w path) (dirs s)\<rparr>))"

text \<open>
  \<^verbatim>\<open>os.WriteFile\<close> creates or overwrites the file of that name in the directory that the
  directory part of the path resolves to. It fails when the operating system refuses,
  and when that directory is not one that \<^verbatim>\<open>os.MkdirAll\<close> has made sure exists: the
  program writes only into directories it has asked for just before, and ignores the
  result of \<^verbatim>\<open>os.MkdirAll\<close>, so a failed creation shows up here.
\<close>

definition os_WriteFile :: "world \<Rightarrow> state \<Rightarrow> string \<Rightarrow> string \<Rightarrow> string option \<times> state" where
  "os_WriteFile w s name content =
     (if resolve w (dirname name) \<notin> dirs s then (Some ''no such file or directory'', s)
      else (case write_err w s name of
              Some err \<Rightarrow> (Some err, s)
            | None \<Rightarrow>
                (None, s\<lparr>files := (files s)((resolve w (dirname name), basename name) \<mapsto> content)\<rparr>)))"

section \<open>The writers (lines 73 to 97)\<close>

definition xml_Header :: string where
  \<open>xml_Header = ''<?xml version="1.0" encoding="UTF-8"?>'' @ [CHR 0x0A]\<close>

definition saveToXML :: "world \<Rightarrow> state \<Rightarrow> string \<Rightarrow> payload \<Rightarrow> outcome" where
  "saveToXML w s filename data =
     (case xml_MarshalIndent w data of
        Inl err \<Rightarrow> fatal (XmlEncodeError err) s
      | Inr xmlData \<Rightarrow>
          (case os_WriteFile w s filename (xml_Header @ xmlData) of
             (Some err, s') \<Rightarrow> fatal (XmlWriteError filename err) s'
           | (None, s') \<Rightarrow> Inr s'))"

definition saveToJSON :: "world \<Rightarrow> state \<Rightarrow> string \<Rightarrow> payload \<Rightarrow> outcome" where
  "saveToJSON w s filename data =
     (case json_MarshalIndent w data of
        Inl err \<Rightarrow> fatal (JsonEncodeError err) s
      | Inr jsonData \<Rightarrow>
          (case os_WriteFile w s filename jsonData of
             (Some err, s') \<Rightarrow> fatal (JsonWriteError filename err) s'
           | (None, s') \<Rightarrow> Inr s'))"

section \<open>The metric fetcher (lines 237 to 278)\<close>

definition exportMetricsForHost ::
  "world \<Rightarrow> state \<Rightarrow> string \<Rightarrow> string \<Rightarrow> string \<Rightarrow> string \<Rightarrow> outcome" where
  "exportMetricsForHost w s token server hostDir hostID =
     (case Post w s server (ItemGet token hostID) of
        (Inl err, s1) \<Rightarrow> Inr (emit (MetricsRequestError hostID err) s1)
      | (Inr body, s1) \<Rightarrow>
          (case unmarshal w body of
             Inl err \<Rightarrow> Inr (emit (MetricsDecodeError hostID err) s1)
           | Inr result \<Rightarrow>
               (case assert_slice (Result result) of
                  None \<Rightarrow> Inl (Panic, s1)
                | Some items \<Rightarrow>
                    (case metrics_of items of
                       None \<Rightarrow> Inl (Panic, s1)
                     | Some metrics \<Rightarrow>
                         (case saveToJSON w s1 (hostDir @ ''/metrics.json'') (PMetrics metrics) of
                            Inl a \<Rightarrow> Inl a
                          | Inr s2 \<Rightarrow> Inr (emit (MetricsExported hostID hostDir) s2))))))"

section \<open>The trigger fetcher (lines 280 to 332)\<close>

definition exportTriggersForHost ::
  "world \<Rightarrow> state \<Rightarrow> string \<Rightarrow> string \<Rightarrow> string \<Rightarrow> string \<Rightarrow> outcome" where
  "exportTriggersForHost w s token server hostDir hostID =
     (case Post w s server (TriggerGet token [hostID]) of
        (Inl err, s1) \<Rightarrow> Inr (emit (TriggersRequestError hostID err) s1)
      | (Inr body, s1) \<Rightarrow>
          (let s2 = emit (TriggersResponse hostID body) s1 in
           case unmarshal w body of
             Inl err \<Rightarrow> Inr (emit (TriggersDecodeError hostID err) s2)
           | Inr result \<Rightarrow>
               if Result result = JNull then Inr (emit (NoTriggers hostID) s2)
               else
                 (case assert_slice (Result result) of
                    None \<Rightarrow> Inl (Panic, s2)
                  | Some trs \<Rightarrow>
                      (case triggers_of trs of
                         None \<Rightarrow> Inl (Panic, s2)
                       | Some triggers \<Rightarrow>
                           (case saveToJSON w s2 (hostDir @ ''/triggers.json'') (PTriggers triggers) of
                              Inl a \<Rightarrow> Inl a
                            | Inr s3 \<Rightarrow> Inr (emit (TriggersExported hostID hostDir) s3))))))"

section \<open>The host enumerator (lines 150 to 235)\<close>

text \<open>Line 224: the directory of a host.\<close>

definition host_dir :: "string \<Rightarrow> Host \<Rightarrow> string" where
  "host_dir exportDir host = exportDir @ ''/hosts/'' @ HostName host"

text \<open>
  Lines 183 to 232, one round of the loop: project the record, make the directory
  (the result of \<^verbatim>\<open>os.MkdirAll\<close> is dropped), write host.xml, fetch the metrics, fetch
  the triggers.
\<close>

definition exportHost :: "world \<Rightarrow> string \<Rightarrow> string \<Rightarrow> string \<Rightarrow> state \<Rightarrow> json \<Rightarrow> outcome" where
  "exportHost w token server exportDir s item =
     (case host_of_item item of
        None \<Rightarrow> Inl (Panic, s)
      | Some host \<Rightarrow>
          (let hostDir = host_dir exportDir host;
               s1 = snd (os_MkdirAll w s hostDir)
           in case saveToXML w s1 (hostDir @ ''/host.xml'') (PHost host) of
                Inl a \<Rightarrow> Inl a
              | Inr s2 \<Rightarrow>
                  (case exportMetricsForHost w s2 token server hostDir (HostID host) of
                     Inl a \<Rightarrow> Inl a
                   | Inr s3 \<Rightarrow> exportTriggersForHost w s3 token server hostDir (HostID host))))"

text \<open>Line 182: the loop, in the order of the result; an abort ends it.\<close>

fun exportHosts :: "world \<Rightarrow> string \<Rightarrow> string \<Rightarrow> string \<Rightarrow> state \<Rightarrow> json list \<Rightarrow> outcome" where
  "exportHosts w token server exportDir s [] = Inr s"
| "exportHosts w token server exportDir s (item # items) =
     (case exportHost w token server exportDir s item of
        Inl a \<Rightarrow> Inl a
      | Inr s' \<Rightarrow> exportHosts w token server exportDir s' items)"

definition exportHostsWithDetails ::
  "world \<Rightarrow> state \<Rightarrow> string \<Rightarrow> string \<Rightarrow> string \<Rightarrow> outcome" where
  "exportHostsWithDetails w s token server exportDir =
     (case Post w s server (HostGet token) of
        (Inl err, s1) \<Rightarrow> fatal (ApiRequestError err) s1
      | (Inr body, s1) \<Rightarrow>
          (case unmarshal w body of
             Inl err \<Rightarrow> fatal (ApiDecodeError err) s1
           | Inr result \<Rightarrow>
               if Result result = JNull then Inr (emit NoHosts s1)
               else
                 (case assert_slice (Result result) of
                    None \<Rightarrow> Inl (Panic, s1)
                  | Some items \<Rightarrow>
                      if length items = 0 then Inr (emit NoHosts s1)
                      else
                        (case exportHosts w token server exportDir s1 items of
                           Inl a \<Rightarrow> Inl a
                         | Inr s2 \<Rightarrow> Inr (emit HostsFinished s2)))))"

section \<open>The run (main, lines 99 to 148)\<close>

definition main :: "world \<Rightarrow> outcome" where
  "main w =
     (if \<not> dotenv_ok w then fatal EnvLoadError init
      else
        (let zabbixUser = getenv w ''ZBX_USER'';
             zabbixPassword = getenv w ''ZBX_PASSWD'';
             zabbixServer = getenv w ''ZBX_URL'';
             exportDir = getenv w ''EXPORT_DIRECTORY''
         in case Post w init zabbixServer (UserLogin zabbixUser zabbixPassword) of
              (Inl err, s1) \<Rightarrow> fatal (ApiRequestError err) s1
            | (Inr body, s1) \<Rightarrow>
                (case unmarshal w body of
                   Inl err \<Rightarrow> fatal (ApiDecodeError err) s1
                 | Inr authResult \<Rightarrow>
                     if Code (Error authResult) \<noteq> 0
                     then fatal (AuthError (Message (Error authResult))) s1
                     else
                       (case assert_string (Result authResult) of
                          None \<Rightarrow> fatal TokenMissing s1
                        | Some zabbixToken \<Rightarrow>
                            if zabbixToken = [] then fatal TokenMissing s1
                            else
                              (case exportHostsWithDetails w s1 zabbixToken zabbixServer exportDir of
                                 Inl a \<Rightarrow> Inl a
                               | Inr s2 \<Rightarrow> Inr (emit ExportFinished s2))))))"

section \<open>Vocabulary of the properties\<close>

text \<open>
  The envelope the \<open>n\<close>-th call of the run delivers when both the transport and the
  decoding of the body succeed; \<open>None\<close> when either fails.
\<close>

definition reply :: "world \<Rightarrow> nat \<Rightarrow> string \<Rightarrow> request \<Rightarrow> ZabbixResponse option" where
  "reply w n url req =
     (case post w n url req of
        Inl err \<Rightarrow> None
      | Inr body \<Rightarrow> (case unmarshal w body of Inl err \<Rightarrow> None | Inr r \<Rightarrow> Some r))"

text \<open>The directory of a host: what the path of line 224 resolves to.\<close>

definition directory_of :: "world \<Rightarrow> Host \<Rightarrow> string" where
  "directory_of w host = resolve w (host_dir (getenv w ''EXPORT_DIRECTORY'') host)"

text \<open>How a run ended, and the state it ended in.\<close>

definition aborted :: "outcome \<Rightarrow> abort option" where
  "aborted out = (case out of Inl (a, s) \<Rightarrow> Some a | Inr s \<Rightarrow> None)"

definition final :: "outcome \<Rightarrow> state" where
  "final out = (case out of Inl (a, s) \<Rightarrow> s | Inr s \<Rightarrow> s)"

section \<open>Sample worlds\<close>

text \<open>An envelope without error, as the server sends it on success.\<close>

definition ok_result :: "json \<Rightarrow> ZabbixResponse" where
  "ok_result v =
     \<lparr>Jsonrpc = ''2.0'', Result = v, Error = \<lparr>Code = 0, Message = [], Data = []\<rparr>, resp_Id = 1\<rparr>"

text \<open>
  The file system of the sample worlds has no links and respects letter case, and its
  working directory is the root. A path is resolved by its components: empty
  components and \<^verbatim>\<open>.\<close> are dropped, \<^verbatim>\<open>..\<close> drops the component before it.
\<close>

fun split_path :: "string \<Rightarrow> string list" where
  "split_path [] = [[]]"
| "split_path (c # cs) =
     (if c = CHR ''/'' then [] # split_path cs
      else (case split_path cs of [] \<Rightarrow> [[c]] | x # xs \<Rightarrow> (c # x) # xs))"

definition enter :: "string list \<Rightarrow> string \<Rightarrow> string list" where
  "enter cs c =
     (if c = [] \<or> c = ''.'' then cs
      else if c = ''..'' then butlast cs
      else cs @ [c])"

definition clean :: "string \<Rightarrow> string" where
  "clean p =
     (case foldl enter [] (split_path p) of
        [] \<Rightarrow> ''/''
      | c # cs \<Rightarrow> concat (map (\<lambda>x. CHR ''/'' # x) (c # cs)))"

text \<open>
  A server that answers \<open>user.login\<close> with the envelope \<open>login\<close>, \<open>host.get\<close> with the
  result \<open>hosts\<close>, every \<open>item.get\<close> with a transport error or the result \<open>items\<close>, and
  every \<open>trigger.get\<close> with the result \<open>triggers\<close>. The bodies are abbreviated to a word
  each; \<open>unmarshal\<close> gives what each decodes to. The encoders and the file system never
  fail.
\<close>

definition sample_world :: "ZabbixResponse \<Rightarrow> json \<Rightarrow> string + json \<Rightarrow> json \<Rightarrow> world" where
  "sample_world login hosts items triggers =
     \<lparr>dotenv_ok = True,
      getenv = (\<lambda>k. if k = ''ZBX_URL'' then ''http://zabbix/api''
                    else if k = ''ZBX_USER'' then ''Admin''
                    else if k = ''ZBX_PASSWD'' then ''zabbix''
                    else if k = ''EXPORT_DIRECTORY'' then ''/srv/export''
                    else []),
      post = (\<lambda>n url req.
                case req of
                  UserLogin user password \<Rightarrow> Inr ''login''
                | HostGet token \<Rightarrow> Inr ''hosts''
                | ItemGet token hostid \<Rightarrow>
                    (case items of Inl err \<Rightarrow> Inl err | Inr v \<Rightarrow> Inr ''items'')
                | TriggerGet token hostids \<Rightarrow> Inr ''triggers''),
      unmarshal = (\<lambda>body.
                if body = ''login'' then Inr login
                else if body = ''hosts'' then Inr (ok_result hosts)
                else if body = ''items'' then
                  (case items of Inl err \<Rightarrow> Inl ''unexpected end of JSON input''
                   | Inr v \<Rightarrow> Inr (ok_result v))
                else if body = ''triggers'' then Inr (ok_result triggers)
                else Inl ''unexpected end of JSON input''),
      xml_MarshalIndent = (\<lambda>data. Inr ''<host></host>''),
      json_MarshalIndent = (\<lambda>data. Inr ''[]''),
      mkdir_err = (\<lambda>s path. None),
      write_err = (\<lambda>s path. None),
      resolve = clean\<rparr>"

text \<open>A well-formed host record with two interfaces, and one item and trigger record.\<close>

definition host_record :: "string \<Rightarrow> string \<Rightarrow> json" where
  "host_record hostid name =
     JObj [(''hostid'', JStr hostid), (''name'', JStr name), (''status'', JStr ''0''),
           (''available'', JStr ''1''),
           (''interfaces'',
              JArr [JObj [(''interfaceid'', JStr ''1''), (''ip'', JStr ''10.0.0.1''),
                          (''port'', JStr ''10050''), (''type'', JStr ''1'')],
                    JObj [(''interfaceid'', JStr ''2''), (''ip'', JStr ''192.168.1.7''),
                          (''port'', JStr ''161''), (''type'', JStr ''2'')]])]"

definition item_record :: json where
  "item_record =
     JObj [(''itemid'', JStr ''23296''), (''name'', JStr ''CPU load''),
           (''key_'', JStr ''system.cpu.load''), (''lastvalue'', JStr ''0.42'')]"

definition trigger_record :: json where
  "trigger_record =
     JObj [(''triggerid'', JStr ''13491''), (''description'', JStr ''High CPU load''),
           (''priority'', JNum 4)]"

text \<open>The login is accepted with the token \<open>tok\<close>.\<close>

definition two_hosts_world :: world where
  "two_hosts_world =
     sample_world (ok_result (JStr ''tok''))
       (JArr [host_record ''10084'' ''web'', host_record ''10085'' ''db''])
       (Inr (JArr [item_record])) (JArr [trigger_record])"

text \<open>Two hosts of one name; and two hosts whose names differ by a trailing slash.\<close>

definition same_name_world :: world where
  "same_name_world =
     sample_world (ok_result (JStr ''tok''))
       (JArr [host_record ''10084'' ''web'', host_record ''10085'' ''web''])
       (Inr (JArr [item_record])) (JArr [trigger_record])"

definition alias_world :: world where
  "alias_world =
     sample_world (ok_result (JStr ''tok''))
       (JArr [host_record ''10084'' ''web'', host_record ''10085'' ''web/''])
       (Inr (JArr [item_record])) (JArr [trigger_record])"

definition metrics_down_world :: world where
  "metrics_down_world =
     sample_world (ok_result (JStr ''tok''))
       (JArr [host_record ''10084'' ''web'', host_record ''10085'' ''db''])
       (Inl ''connection refused'') (JArr [trigger_record])"

definition null_results_world :: world where
  "null_results_world =
     sample_world (ok_result (JStr ''tok''))
       (JArr [host_record ''10084'' ''web'', host_record ''10085'' ''db''])
       (Inr JNull) JNull"

definition null_triggers_world :: world where
  "null_triggers_world =
     sample_world (ok_result (JStr ''tok''))
       (JArr [host_record ''10084'' ''web'', host_record ''10085'' ''db''])
       (Inr (JArr [])) JNull"

definition no_hosts_world :: world where
  "no_hosts_world =
     sample_world (ok_result (JStr ''tok'')) (JArr []) (Inr (JArr [item_record]))
       (JArr [trigger_record])"

text \<open>The login is rejected: the envelope carries the error code 401 and no result.\<close>

definition login_rejected :: ZabbixResponse where
  "login_rejected =
     \<lparr>Jsonrpc = ''2.0'', Result = JNull,
      Error = \<lparr>Code = 401, Message = ''Login name or password is incorrect.'',
               Data = []\<rparr>,
      resp_Id = 1\<rparr>"

definition login_rejected_world :: world where
  "login_rejected_world =
     sample_world login_rejected
       (JArr [host_record ''10084'' ''web'']) (Inr (JArr [item_record])) (JArr [trigger_record])"

text \<open>A host record that is well formed except that it has no \<open>available\<close> field.\<close>

definition unflagged_record :: gomap where
  "unflagged_record =
     [(''hostid'', JStr ''10084''), (''name'', JStr ''web''), (''status'', JStr ''0''),
      (''interfaces'', JArr [JObj [(''interfaceid'', JStr ''1''), (''ip'', JStr ''10.0.0.1'')]])]"

text \<open>What \<open>host_record\<close> is projected to.\<close>

definition sample_host :: "string \<Rightarrow> string \<Rightarrow> Host" where
  "sample_host hostid name =
     \<lparr>HostID = hostid, HostName = name, IPAddress = ''10.0.0.1'', Status = ''0'',
      Availability = ''Available'', Notes = [], Groups = [], Templates = [], Interfaces = []\<rparr>"

text \<open>
  Three states of the sample runs with the hosts \<open>web\<close> and \<open>db\<close>: when the loop starts;
  when host.xml of \<open>web\<close> has been written and its metrics are about to be fetched; and,
  where the metric fetch delivers the empty list, when metrics.json of \<open>web\<close> has been
  written and its triggers are about to be fetched.
\<close>

definition hosts_listed :: state where
  "hosts_listed =
     \<lparr>sent = [(''http://zabbix/api'', UserLogin ''Admin'' ''zabbix''),
              (''http://zabbix/api'', HostGet ''tok'')],
      dirs = {}, files = Map.empty, console = []\<rparr>"

definition web_xml_written :: state where
  "web_xml_written =
     hosts_listed
       \<lparr>dirs := {''/srv/export/hosts/web''},
        files := [(''/srv/export/hosts/web'', ''host.xml'') \<mapsto> xml_Header @ ''<host></host>'']\<rparr>"

definition web_metrics_written :: state where
  "web_metrics_written =
     web_xml_written
       \<lparr>sent := sent web_xml_written @ [(''http://zabbix/api'', ItemGet ''tok'' ''10084'')],
        files := (files web_xml_written)((''/srv/export/hosts/web'', ''metrics.json'') \<mapsto> ''[]''),
        console := [MetricsExported ''10084'' ''/srv/export/hosts/web'']\<rparr>"

section \<open>Auxiliary facts\<close>





lemma reply_Some:
  "reply w n url req = Some r \<longleftrightarrow>
     (\<exists>body. post w n url req = Inr body \<and> unmarshal w body = Inr r)"
  by (auto simp: reply_def split: sum.splits)

lemma reply_None:
  "reply w n url req = None \<longleftrightarrow>
     (\<exists>err. post w n url req = Inl err) \<or>
     (\<exists>body err. post w n url req = Inr body \<and> unmarshal w body = Inl err)"
  by (auto simp: reply_def split: sum.splits)





subsection \<open>What a step that returns has done\<close>












text \<open>Unfolding the whole program, to run it on a sample world.\<close>

lemmas run_defs =
  main_def exportHostsWithDetails_def exportHost_def exportMetricsForHost_def
  exportTriggersForHost_def saveToXML_def saveToJSON_def os_WriteFile_def os_MkdirAll_def
  Post_def emit_def fatal_def init_def host_dir_def dirname_def host_of_item_def
  availability_def index_def trigger_of_map_def getStringFromMap_def reply_def aborted_def
  final_def xml_Header_def basename_def directory_of_def Let_def

lemmas sample_defs =
  sample_world_def ok_result_def host_record_def item_record_def trigger_record_def
  clean_def enter_def two_hosts_world_def same_name_world_def alias_world_def
  metrics_down_world_def null_results_world_def
  null_triggers_world_def no_hosts_world_def login_rejected_def login_rejected_world_def
  unflagged_record_def sample_host_def hosts_listed_def web_xml_written_def
  web_metrics_written_def

section \<open>The files of a completed run\<close>




section \<open>The availability label\<close>

text \<open>
  Claim C1, as amended. When the \<open>available\<close> field of a host record is a string, the
  label is \<open>Available\<close> for \<open>1\<close>, \<open>Unavailable\<close> for \<open>0\<close> and \<open>Unknown\<close> for every other
  string. When the field is absent or is not a string, no label is derived: the
  unchecked type assertion panics, and so does the projection of the record.
\<close>

theorem availability_label:
  "availability data =
     (case index data ''available'' of
        JStr flag \<Rightarrow>
          Some (if flag = ''1'' then ''Available''
                else if flag = ''0'' then ''Unavailable'' else ''Unknown'')
      | _ \<Rightarrow> None) \<and>
   (availability data = None \<longrightarrow> host_of_item (JObj data) = None)"
  by (simp add: availability_def host_of_item_def split: json.splits)

text \<open>
  The theorem at a record flagged \<open>2\<close>, which is labelled \<open>Unknown\<close>, and at the record
  without the field, whose projection panics.
\<close>

theorem availability_label_witness:
  "availability [(''hostid'', JStr ''10084''), (''available'', JStr ''2'')] = Some ''Unknown'' \<and>
   availability unflagged_record = None \<and>
   host_of_item (JObj unflagged_record) = None"
  using availability_label [of "[(''hostid'', JStr ''10084''), (''available'', JStr ''2'')]"]
    availability_label [of unflagged_record]
  by (simp add: index_def unflagged_record_def)

text \<open>
  The claim as stated fails where the flag is absent: the record has no \<open>available\<close>
  field, and the label is not \<open>Unknown\<close>; there is no label and no host, the process
  panics.
\<close>

theorem availability_label_counterexample:
  "index unflagged_record ''available'' = JNull \<and>
   availability unflagged_record \<noteq> Some ''Unknown'' \<and>
   aborted (exportHost two_hosts_world ''tok'' ''http://zabbix/api'' ''/srv/export'' init
      (JObj unflagged_record)) = Some Panic"
  by (simp add: run_defs sample_defs)

section \<open>The primary IP address\<close>



section \<open>Defensive extraction of trigger fields\<close>

text \<open>
  Claim C8. \<open>getStringFromMap\<close> returns the empty string when the key is missing from
  the map and when its value is not a string, and returns a string value unchanged.
  Each of the four fields of a trigger is extracted this way, so the projection of a
  trigger record map is a total function, and the loop over a list of record maps
  never panics.
\<close>

theorem trigger_projection_total:
  "(map_of data key = None \<longrightarrow> getStringFromMap data key = []) \<and>
   (\<forall>v. map_of data key = Some v \<and> assert_string v = None \<longrightarrow> getStringFromMap data key = []) \<and>
   (\<forall>s. map_of data key = Some (JStr s) \<longrightarrow> getStringFromMap data key = s) \<and>
   TriggerID (trigger_of_map data) = getStringFromMap data ''triggerid'' \<and>
   Description (trigger_of_map data) = getStringFromMap data ''description'' \<and>
   Priority (trigger_of_map data) = getStringFromMap data ''priority'' \<and>
   Trigger_Status (trigger_of_map data) = getStringFromMap data ''status'' \<and>
   triggers_of (map JObj records) = Some (map trigger_of_map records)"
proof -
  have "triggers_of (map JObj records) = Some (map trigger_of_map records)"
    by (induction records) simp_all
  then show ?thesis
    by (simp add: getStringFromMap_def trigger_of_map_def)
qed

text \<open>
  The theorem at a trigger record whose \<open>priority\<close> is a number and whose \<open>status\<close> is
  missing.
\<close>

theorem trigger_projection_total_witness:
  "trigger_record =
     JObj [(''triggerid'', JStr ''13491''), (''description'', JStr ''High CPU load''),
           (''priority'', JNum 4)] \<and>
   trigger_of_map [(''triggerid'', JStr ''13491''), (''description'', JStr ''High CPU load''),
                   (''priority'', JNum 4)] =
     \<lparr>TriggerID = ''13491'', Description = ''High CPU load'', Priority = [],
      Trigger_Status = []\<rparr>"
proof -
  let ?data = "[(''triggerid'', JStr ''13491''), (''description'', JStr ''High CPU load''),
                (''priority'', JNum 4)]"
  note t = trigger_projection_total [of ?data _ "[]"]
  have "getStringFromMap ?data ''triggerid'' = ''13491''"
    using t [of "''triggerid''"] by simp
  moreover have "getStringFromMap ?data ''description'' = ''High CPU load''"
    using t [of "''description''"] by simp
  moreover have "getStringFromMap ?data ''priority'' = []"
    using t [of "''priority''"] by simp
  moreover have "getStringFromMap ?data ''status'' = []"
    using t [of "''status''"] by simp
  moreover have "TriggerID (trigger_of_map ?data) = getStringFromMap ?data ''triggerid''"
    "Description (trigger_of_map ?data) = getStringFromMap ?data ''description''"
    "Priority (trigger_of_map ?data) = getStringFromMap ?data ''priority''"
    "Trigger_Status (trigger_of_map ?data) = getStringFromMap ?data ''status''"
    using t [of "''status''"] by blast+
  ultimately have "trigger_of_map ?data =
     \<lparr>TriggerID = ''13491'', Description = ''High CPU load'', Priority = [],
      Trigger_Status = []\<rparr>"
    by (cases "trigger_of_map ?data") simp
  then show ?thesis by (simp add: trigger_record_def)
qed

section \<open>A rejected login\<close>

text \<open>
  Claim C3. When the login call delivers an envelope whose error code is not zero, the
  run ends with the fatal line that carries the message of the envelope. The login is
  the only call made: no enumeration, no directory, no file. That line is all that is
  printed.
\<close>

theorem rejected_login_is_fatal:
  assumes "dotenv_ok w"
    and "reply w 0 (getenv w ''ZBX_URL'')
           (UserLogin (getenv w ''ZBX_USER'') (getenv w ''ZBX_PASSWD'')) = Some r"
    and "Code (Error r) \<noteq> 0"
  shows "aborted (main w) = Some (Fatal (AuthError (Message (Error r)))) \<and>
         sent (final (main w)) =
           [(getenv w ''ZBX_URL'', UserLogin (getenv w ''ZBX_USER'') (getenv w ''ZBX_PASSWD''))] \<and>
         dirs (final (main w)) = {} \<and>
         files (final (main w)) = Map.empty \<and>
         console (final (main w)) = [AuthError (Message (Error r))]"
proof -
  from assms(2) obtain body where
    "post w 0 (getenv w ''ZBX_URL'')
       (UserLogin (getenv w ''ZBX_USER'') (getenv w ''ZBX_PASSWD'')) = Inr body"
    and "unmarshal w body = Inr r"
    by (auto simp: reply_Some)
  with assms(1,3) have "main w =
      fatal (AuthError (Message (Error r)))
        (init\<lparr>sent := [(getenv w ''ZBX_URL'',
            UserLogin (getenv w ''ZBX_USER'') (getenv w ''ZBX_PASSWD''))]\<rparr>)"
    by (simp add: main_def Post_def init_def Let_def)
  then show ?thesis
    by (simp add: fatal_def emit_def init_def aborted_def final_def)
qed

text \<open>The theorem at the sample run whose login is answered with the error code 401.\<close>

theorem rejected_login_is_fatal_witness:
  "dotenv_ok login_rejected_world \<and>
   reply login_rejected_world 0 ''http://zabbix/api'' (UserLogin ''Admin'' ''zabbix'') =
     Some login_rejected \<and>
   Code (Error login_rejected) = 401 \<and>
   aborted (main login_rejected_world) =
     Some (Fatal (AuthError ''Login name or password is incorrect.'')) \<and>
   sent (final (main login_rejected_world)) =
     [(''http://zabbix/api'', UserLogin ''Admin'' ''zabbix'')] \<and>
   dirs (final (main login_rejected_world)) = {} \<and>
   files (final (main login_rejected_world)) = Map.empty"
proof -
  let ?w = login_rejected_world
  have env: "getenv ?w ''ZBX_URL'' = ''http://zabbix/api''" "getenv ?w ''ZBX_USER'' = ''Admin''"
    "getenv ?w ''ZBX_PASSWD'' = ''zabbix''"
    by (simp_all add: sample_defs)
  have ok: "dotenv_ok ?w" by (simp add: sample_defs)
  have rep: "reply ?w 0 (getenv ?w ''ZBX_URL'')
      (UserLogin (getenv ?w ''ZBX_USER'') (getenv ?w ''ZBX_PASSWD'')) = Some login_rejected"
    by (simp add: reply_def sample_world_def login_rejected_world_def)
  have code: "Code (Error login_rejected) \<noteq> 0" "Code (Error login_rejected) = 401"
    "Message (Error login_rejected) = ''Login name or password is incorrect.''"
    by (simp_all add: login_rejected_def)
  from rejected_login_is_fatal [OF ok rep code(1)] ok rep code(2,3) show ?thesis
    by (simp add: env)
qed

section \<open>An empty enumeration\<close>

text \<open>
  Claim C6. When the login succeeds and the enumeration delivers a null result or an
  empty list, the run completes: it has made the two calls, printed that there are no
  hosts and that the export is finished, and created no directory and no file.
\<close>

theorem no_hosts_no_files:
  assumes "dotenv_ok w"
    and "reply w 0 (getenv w ''ZBX_URL'')
           (UserLogin (getenv w ''ZBX_USER'') (getenv w ''ZBX_PASSWD'')) = Some r0"
    and "Code (Error r0) = 0" and "Result r0 = JStr token" and "token \<noteq> []"
    and "reply w 1 (getenv w ''ZBX_URL'') (HostGet token) = Some r1"
    and "Result r1 = JNull \<or> Result r1 = JArr []"
  shows "aborted (main w) = None \<and>
         dirs (final (main w)) = {} \<and>
         files (final (main w)) = Map.empty \<and>
         console (final (main w)) = [NoHosts, ExportFinished] \<and>
         sent (final (main w)) =
           [(getenv w ''ZBX_URL'', UserLogin (getenv w ''ZBX_USER'') (getenv w ''ZBX_PASSWD'')),
            (getenv w ''ZBX_URL'', HostGet token)]"
proof -
  let ?url = "getenv w ''ZBX_URL''"
  let ?login = "UserLogin (getenv w ''ZBX_USER'') (getenv w ''ZBX_PASSWD'')"
  let ?s1 = "init\<lparr>sent := [(?url, ?login)]\<rparr>"
  from assms(2) obtain b0 where b0: "post w 0 ?url ?login = Inr b0" "unmarshal w b0 = Inr r0"
    by (auto simp: reply_Some)
  from assms(6) obtain b1 where b1: "post w 1 ?url (HostGet token) = Inr b1" "unmarshal w b1 = Inr r1"
    by (auto simp: reply_Some)
  have enum: "exportHostsWithDetails w ?s1 token ?url (getenv w ''EXPORT_DIRECTORY'') =
      Inr (emit NoHosts (?s1\<lparr>sent := sent ?s1 @ [(?url, HostGet token)]\<rparr>))"
    using b1 assms(7) by (auto simp: exportHostsWithDetails_def Post_def)
  have "main w = Inr (emit ExportFinished (emit NoHosts (?s1\<lparr>sent := sent ?s1 @ [(?url, HostGet token)]\<rparr>)))"
    using assms(1,3,4,5) b0 enum by (simp add: main_def Post_def init_def Let_def)
  then show ?thesis
    by (simp add: emit_def init_def aborted_def final_def)
qed

text \<open>
  The theorem at the sample run whose enumeration delivers the empty list.
\<close>

theorem no_hosts_no_files_witness:
  "reply no_hosts_world 1 ''http://zabbix/api'' (HostGet ''tok'') = Some (ok_result (JArr [])) \<and>
   aborted (main no_hosts_world) = None \<and>
   dirs (final (main no_hosts_world)) = {} \<and>
   files (final (main no_hosts_world)) = Map.empty \<and>
   console (final (main no_hosts_world)) = [NoHosts, ExportFinished]"
proof -
  let ?w = no_hosts_world
  have env: "getenv ?w ''ZBX_URL'' = ''http://zabbix/api''" "getenv ?w ''ZBX_USER'' = ''Admin''"
    "getenv ?w ''ZBX_PASSWD'' = ''zabbix''"
    by (simp_all add: sample_defs)
  have ok: "dotenv_ok ?w" by (simp add: sample_defs)
  have login: "reply ?w 0 (getenv ?w ''ZBX_URL'')
      (UserLogin (getenv ?w ''ZBX_USER'') (getenv ?w ''ZBX_PASSWD'')) = Some (ok_result (JStr ''tok''))"
    by (simp add: reply_def sample_defs)
  have r0: "Code (Error (ok_result (JStr ''tok''))) = 0"
    "Result (ok_result (JStr ''tok'')) = JStr ''tok''" "''tok'' \<noteq> []"
    by (simp_all add: ok_result_def)
  have enum: "reply ?w 1 (getenv ?w ''ZBX_URL'') (HostGet ''tok'') = Some (ok_result (JArr []))"
    by (simp add: reply_def sample_defs)
  have r1: "Result (ok_result (JArr [])) = JNull \<or> Result (ok_result (JArr [])) = JArr []"
    by (simp add: ok_result_def)
  from no_hosts_no_files [OF ok login r0 enum r1] enum show ?thesis
    by (simp add: env)
qed

section \<open>Failures of the per-host fetches\<close>

text \<open>
  One round of the loop, when the record is projected and host.xml is written: the
  metric fetcher runs in the state \<open>s\<close> reached, and the trigger fetcher after it.
\<close>

lemma exportHosts_round:
  assumes "host_of_item item = Some host"
    and "saveToXML w (snd (os_MkdirAll w s0 (host_dir exportDir host)))
           (host_dir exportDir host @ ''/host.xml'') (PHost host) = Inr s"
  shows "exportHosts w token server exportDir s0 (item # rest) =
           (case exportMetricsForHost w s token server (host_dir exportDir host) (HostID host) of
              Inl a \<Rightarrow> Inl a
            | Inr s3 \<Rightarrow>
                (case exportTriggersForHost w s3 token server (host_dir exportDir host)
                        (HostID host) of
                   Inl a \<Rightarrow> Inl a
                 | Inr s4 \<Rightarrow> exportHosts w token server exportDir s4 rest))"
  using assms by (simp add: exportHost_def Let_def split: sum.splits)

text \<open>
  Claim C4. When the metric fetch of a host fails at transport or at decoding, the
  metric fetcher returns: it has made its call and printed the line of the failure,
  and written no file. In the loop, the trigger fetcher of the same host runs next, in
  that state, and the remaining hosts follow.
\<close>

theorem metric_fetch_failure_continues:
  assumes "reply w (length (sent s)) server (ItemGet token hostID) = None"
  shows "\<exists>s'. exportMetricsForHost w s token server hostDir hostID = Inr s' \<and>
           files s' = files s \<and> dirs s' = dirs s \<and>
           sent s' = sent s @ [(server, ItemGet token hostID)] \<and>
           (\<exists>err. console s' = console s @ [MetricsRequestError hostID err] \<or>
                  console s' = console s @ [MetricsDecodeError hostID err]) \<and>
           (\<forall>s0 exportDir item host rest.
              host_of_item item = Some host \<and> HostID host = hostID \<and>
              host_dir exportDir host = hostDir \<and>
              saveToXML w (snd (os_MkdirAll w s0 hostDir)) (hostDir @ ''/host.xml'') (PHost host)
                = Inr s \<longrightarrow>
              exportHosts w token server exportDir s0 (item # rest) =
                (case exportTriggersForHost w s' token server hostDir hostID of
                   Inl a \<Rightarrow> Inl a
                 | Inr s4 \<Rightarrow> exportHosts w token server exportDir s4 rest))"
proof -
  from assms obtain l where
    ret: "exportMetricsForHost w s token server hostDir hostID =
            Inr (emit l (s\<lparr>sent := sent s @ [(server, ItemGet token hostID)]\<rparr>))"
    and l: "\<exists>err. l = MetricsRequestError hostID err \<or> l = MetricsDecodeError hostID err"
    by (auto simp: reply_None exportMetricsForHost_def Post_def)
  let ?s' = "emit l (s\<lparr>sent := sent s @ [(server, ItemGet token hostID)]\<rparr>)"
  have "files ?s' = files s" "dirs ?s' = dirs s"
    "sent ?s' = sent s @ [(server, ItemGet token hostID)]"
    by (simp_all add: emit_def)
  moreover have "\<exists>err. console ?s' = console s @ [MetricsRequestError hostID err] \<or>
                      console ?s' = console s @ [MetricsDecodeError hostID err]"
    using l by (auto simp: emit_def)
  moreover have "\<forall>s0 exportDir item host rest.
      host_of_item item = Some host \<and> HostID host = hostID \<and>
      host_dir exportDir host = hostDir \<and>
      saveToXML w (snd (os_MkdirAll w s0 hostDir)) (hostDir @ ''/host.xml'') (PHost host)
        = Inr s \<longrightarrow>
      exportHosts w token server exportDir s0 (item # rest) =
        (case exportTriggersForHost w ?s' token server hostDir hostID of
           Inl a \<Rightarrow> Inl a
         | Inr s4 \<Rightarrow> exportHosts w token server exportDir s4 rest)"
  proof (intro allI impI, elim conjE)
    fix s0 exportDir item host rest
    assume h: "host_of_item item = Some host" and i: "HostID host = hostID"
      and d: "host_dir exportDir host = hostDir"
      and x: "saveToXML w (snd (os_MkdirAll w s0 hostDir)) (hostDir @ ''/host.xml'') (PHost host)
                = Inr s"
    from x d have "saveToXML w (snd (os_MkdirAll w s0 (host_dir exportDir host)))
        (host_dir exportDir host @ ''/host.xml'') (PHost host) = Inr s"
      by simp
    from exportHosts_round [OF h this, of token server rest] ret i d
    show "exportHosts w token server exportDir s0 (item # rest) =
        (case exportTriggersForHost w ?s' token server hostDir hostID of
           Inl a \<Rightarrow> Inl a
         | Inr s4 \<Rightarrow> exportHosts w token server exportDir s4 rest)"
      by (simp del: exportHosts.simps)
  qed
  ultimately show ?thesis using ret by blast
qed

text \<open>
  The theorem at the sample run whose metric fetches meet a transport error, for the
  host \<open>web\<close>: the failure is printed and no file is written; the loop over \<open>web\<close> and
  \<open>db\<close> goes on to write triggers.json of \<open>web\<close> and the files of \<open>db\<close>, and returns.
\<close>

theorem metric_fetch_failure_continues_witness:
  "reply metrics_down_world (length (sent web_xml_written)) ''http://zabbix/api''
     (ItemGet ''tok'' ''10084'') = None \<and>
   host_of_item (host_record ''10084'' ''web'') = Some (sample_host ''10084'' ''web'') \<and>
   saveToXML metrics_down_world
     (snd (os_MkdirAll metrics_down_world hosts_listed ''/srv/export/hosts/web''))
     ''/srv/export/hosts/web/host.xml'' (PHost (sample_host ''10084'' ''web'')) =
     Inr web_xml_written \<and>
   exportMetricsForHost metrics_down_world web_xml_written ''tok'' ''http://zabbix/api''
     ''/srv/export/hosts/web'' ''10084'' =
     Inr (web_xml_written
            \<lparr>sent := sent web_xml_written @ [(''http://zabbix/api'', ItemGet ''tok'' ''10084'')],
             console := [MetricsRequestError ''10084'' ''connection refused'']\<rparr>) \<and>
   exportHosts metrics_down_world ''tok'' ''http://zabbix/api'' ''/srv/export'' hosts_listed
     [host_record ''10084'' ''web'', host_record ''10085'' ''db''] =
     (case exportTriggersForHost metrics_down_world
             (web_xml_written
                \<lparr>sent := sent web_xml_written @ [(''http://zabbix/api'', ItemGet ''tok'' ''10084'')],
                 console := [MetricsRequestError ''10084'' ''connection refused'']\<rparr>)
             ''tok'' ''http://zabbix/api'' ''/srv/export/hosts/web'' ''10084'' of
        Inl a \<Rightarrow> Inl a
      | Inr s4 \<Rightarrow>
          exportHosts metrics_down_world ''tok'' ''http://zabbix/api'' ''/srv/export'' s4
            [host_record ''10085'' ''db'']) \<and>
   aborted (main metrics_down_world) = None \<and>
   (''/srv/export/hosts/web'', ''metrics.json'') \<notin> dom (files (final (main metrics_down_world))) \<and>
   (''/srv/export/hosts/web'', ''triggers.json'') \<in> dom (files (final (main metrics_down_world))) \<and>
   (''/srv/export/hosts/db'', ''host.xml'') \<in> dom (files (final (main metrics_down_world)))"
proof -
  let ?w = metrics_down_world
  let ?web = "sample_host ''10084'' ''web''"
  let ?s' = "web_xml_written
            \<lparr>sent := sent web_xml_written @ [(''http://zabbix/api'', ItemGet ''tok'' ''10084'')],
             console := [MetricsRequestError ''10084'' ''connection refused'']\<rparr>"
  have fail: "reply ?w (length (sent web_xml_written)) ''http://zabbix/api''
      (ItemGet ''tok'' ''10084'') = None"
    by (simp add: reply_def sample_defs)
  have h: "host_of_item (host_record ''10084'' ''web'') = Some ?web"
    by (simp add: run_defs sample_defs)
  have i: "HostID ?web = ''10084''" and d: "host_dir ''/srv/export'' ?web = ''/srv/export/hosts/web''"
    by (simp_all add: sample_host_def host_dir_def)
  have x: "saveToXML ?w (snd (os_MkdirAll ?w hosts_listed ''/srv/export/hosts/web''))
      (''/srv/export/hosts/web'' @ ''/host.xml'') (PHost ?web) = Inr web_xml_written"
    by (simp add: run_defs sample_defs)
  have step: "exportMetricsForHost ?w web_xml_written ''tok'' ''http://zabbix/api''
      ''/srv/export/hosts/web'' ''10084'' = Inr ?s'"
    by (simp add: run_defs sample_defs)
  from metric_fetch_failure_continues [OF fail, of "''/srv/export/hosts/web''"]
  obtain s' where
    ret: "exportMetricsForHost ?w web_xml_written ''tok'' ''http://zabbix/api''
            ''/srv/export/hosts/web'' ''10084'' = Inr s'"
    and loop: "\<forall>s0 exportDir item host rest.
        host_of_item item = Some host \<and> HostID host = ''10084'' \<and>
        host_dir exportDir host = ''/srv/export/hosts/web'' \<and>
        saveToXML ?w (snd (os_MkdirAll ?w s0 ''/srv/export/hosts/web''))
          (''/srv/export/hosts/web'' @ ''/host.xml'') (PHost host) = Inr web_xml_written \<longrightarrow>
        exportHosts ?w ''tok'' ''http://zabbix/api'' exportDir s0 (item # rest) =
          (case exportTriggersForHost ?w s' ''tok'' ''http://zabbix/api''
                  ''/srv/export/hosts/web'' ''10084'' of
             Inl a \<Rightarrow> Inl a
           | Inr s4 \<Rightarrow> exportHosts ?w ''tok'' ''http://zabbix/api'' exportDir s4 rest)"
    by blast
  from ret step have s': "s' = ?s'" by simp
  from loop h i d x
  have round: "exportHosts ?w ''tok'' ''http://zabbix/api'' ''/srv/export'' hosts_listed
      (host_record ''10084'' ''web'' # [host_record ''10085'' ''db'']) =
      (case exportTriggersForHost ?w s' ''tok'' ''http://zabbix/api''
              ''/srv/export/hosts/web'' ''10084'' of
         Inl a \<Rightarrow> Inl a
       | Inr s4 \<Rightarrow> exportHosts ?w ''tok'' ''http://zabbix/api'' ''/srv/export'' s4
                     [host_record ''10085'' ''db''])"
    by blast
  have run: "aborted (main ?w) = None \<and>
     (''/srv/export/hosts/web'', ''metrics.json'') \<notin> dom (files (final (main ?w))) \<and>
     (''/srv/export/hosts/web'', ''triggers.json'') \<in> dom (files (final (main ?w))) \<and>
     (''/srv/export/hosts/db'', ''host.xml'') \<in> dom (files (final (main ?w)))"
    by (simp add: run_defs sample_defs)
  from x have x': "saveToXML ?w (snd (os_MkdirAll ?w hosts_listed ''/srv/export/hosts/web''))
      ''/srv/export/hosts/web/host.xml'' (PHost ?web) = Inr web_xml_written"
    by simp
  from fail h x' step round [unfolded s'] run show ?thesis by blast
qed

text \<open>
  Claim C5. When the trigger fetch of a host succeeds and the result of the envelope is
  null, the trigger fetcher returns: it has made its call, printed the raw body and the
  line that there are no triggers, and written no file. In the loop the round of the
  host ends there, and the remaining hosts follow.
\<close>

theorem null_triggers_are_skipped:
  assumes "post w (length (sent s)) server (TriggerGet token [hostID]) = Inr body"
    and "unmarshal w body = Inr r"
    and "Result r = JNull"
  shows "\<exists>s'. exportTriggersForHost w s token server hostDir hostID = Inr s' \<and>
           files s' = files s \<and> dirs s' = dirs s \<and>
           sent s' = sent s @ [(server, TriggerGet token [hostID])] \<and>
           console s' = console s @ [TriggersResponse hostID body, NoTriggers hostID] \<and>
           (\<forall>s0 s2 exportDir item host rest.
              host_of_item item = Some host \<and> HostID host = hostID \<and>
              host_dir exportDir host = hostDir \<and>
              saveToXML w (snd (os_MkdirAll w s0 hostDir)) (hostDir @ ''/host.xml'') (PHost host)
                = Inr s2 \<and>
              exportMetricsForHost w s2 token server hostDir hostID = Inr s \<longrightarrow>
              exportHosts w token server exportDir s0 (item # rest) =
                exportHosts w token server exportDir s' rest)"
proof -
  let ?s' = "emit (NoTriggers hostID)
               (emit (TriggersResponse hostID body)
                  (s\<lparr>sent := sent s @ [(server, TriggerGet token [hostID])]\<rparr>))"
  have ret: "exportTriggersForHost w s token server hostDir hostID = Inr ?s'"
    using assms by (simp add: exportTriggersForHost_def Post_def Let_def)
  have "files ?s' = files s" "dirs ?s' = dirs s"
    "sent ?s' = sent s @ [(server, TriggerGet token [hostID])]"
    "console ?s' = console s @ [TriggersResponse hostID body, NoTriggers hostID]"
    by (simp_all add: emit_def)
  moreover have "\<forall>s0 s2 exportDir item host rest.
      host_of_item item = Some host \<and> HostID host = hostID \<and>
      host_dir exportDir host = hostDir \<and>
      saveToXML w (snd (os_MkdirAll w s0 hostDir)) (hostDir @ ''/host.xml'') (PHost host)
        = Inr s2 \<and>
      exportMetricsForHost w s2 token server hostDir hostID = Inr s \<longrightarrow>
      exportHosts w token server exportDir s0 (item # rest) =
        exportHosts w token server exportDir ?s' rest"
  proof (intro allI impI, elim conjE)
    fix s0 s2 exportDir item host rest
    assume h: "host_of_item item = Some host" and i: "HostID host = hostID"
      and d: "host_dir exportDir host = hostDir"
      and x: "saveToXML w (snd (os_MkdirAll w s0 hostDir)) (hostDir @ ''/host.xml'') (PHost host)
                = Inr s2"
      and m: "exportMetricsForHost w s2 token server hostDir hostID = Inr s"
    from x d have "saveToXML w (snd (os_MkdirAll w s0 (host_dir exportDir host)))
        (host_dir exportDir host @ ''/host.xml'') (PHost host) = Inr s2"
      by simp
    from exportHosts_round [OF h this, of token server rest] ret m i d
    show "exportHosts w token server exportDir s0 (item # rest) =
        exportHosts w token server exportDir ?s' rest"
      by (simp del: exportHosts.simps)
  qed
  ultimately show ?thesis using ret by blast
qed

text \<open>
  The theorem at the sample run whose trigger fetches deliver a null result, for the
  host \<open>web\<close>: the body and the line are printed and no file is written; the loop over
  \<open>web\<close> and \<open>db\<close> goes on with \<open>db\<close>, and the run completes without triggers.json.
\<close>

theorem null_triggers_are_skipped_witness:
  "post null_triggers_world (length (sent web_metrics_written)) ''http://zabbix/api''
     (TriggerGet ''tok'' [''10084'']) = Inr ''triggers'' \<and>
   unmarshal null_triggers_world ''triggers'' = Inr (ok_result JNull) \<and>
   saveToXML null_triggers_world
     (snd (os_MkdirAll null_triggers_world hosts_listed ''/srv/export/hosts/web''))
     ''/srv/export/hosts/web/host.xml'' (PHost (sample_host ''10084'' ''web'')) =
     Inr web_xml_written \<and>
   exportMetricsForHost null_triggers_world web_xml_written ''tok'' ''http://zabbix/api''
     ''/srv/export/hosts/web'' ''10084'' = Inr web_metrics_written \<and>
   exportTriggersForHost null_triggers_world web_metrics_written ''tok'' ''http://zabbix/api''
     ''/srv/export/hosts/web'' ''10084'' =
     Inr (web_metrics_written
            \<lparr>sent := sent web_metrics_written @
                      [(''http://zabbix/api'', TriggerGet ''tok'' [''10084''])],
             console := console web_metrics_written @
                      [TriggersResponse ''10084'' ''triggers'', NoTriggers ''10084'']\<rparr>) \<and>
   exportHosts null_triggers_world ''tok'' ''http://zabbix/api'' ''/srv/export'' hosts_listed
     [host_record ''10084'' ''web'', host_record ''10085'' ''db''] =
     exportHosts null_triggers_world ''tok'' ''http://zabbix/api'' ''/srv/export''
       (web_metrics_written
            \<lparr>sent := sent web_metrics_written @
                      [(''http://zabbix/api'', TriggerGet ''tok'' [''10084''])],
             console := console web_metrics_written @
                      [TriggersResponse ''10084'' ''triggers'', NoTriggers ''10084'']\<rparr>)
       [host_record ''10085'' ''db''] \<and>
   aborted (main null_triggers_world) = None \<and>
   (''/srv/export/hosts/web'', ''triggers.json'') \<notin> dom (files (final (main null_triggers_world))) \<and>
   (''/srv/export/hosts/web'', ''metrics.json'') \<in> dom (files (final (main null_triggers_world))) \<and>
   (''/srv/export/hosts/db'', ''host.xml'') \<in> dom (files (final (main null_triggers_world)))"
proof -
  let ?w = null_triggers_world
  let ?web = "sample_host ''10084'' ''web''"
  let ?s' = "web_metrics_written
            \<lparr>sent := sent web_metrics_written @
                      [(''http://zabbix/api'', TriggerGet ''tok'' [''10084''])],
             console := console web_metrics_written @
                      [TriggersResponse ''10084'' ''triggers'', NoTriggers ''10084'']\<rparr>"
  have p: "post ?w (length (sent web_metrics_written)) ''http://zabbix/api''
      (TriggerGet ''tok'' [''10084'']) = Inr ''triggers''"
    by (simp add: sample_defs)
  have u: "unmarshal ?w ''triggers'' = Inr (ok_result JNull)"
    by (simp add: sample_defs)
  have n: "Result (ok_result JNull) = JNull"
    by (simp add: ok_result_def)
  have h: "host_of_item (host_record ''10084'' ''web'') = Some ?web"
    by (simp add: run_defs sample_defs)
  have i: "HostID ?web = ''10084''" and d: "host_dir ''/srv/export'' ?web = ''/srv/export/hosts/web''"
    by (simp_all add: sample_host_def host_dir_def)
  have x: "saveToXML ?w (snd (os_MkdirAll ?w hosts_listed ''/srv/export/hosts/web''))
      (''/srv/export/hosts/web'' @ ''/host.xml'') (PHost ?web) = Inr web_xml_written"
    by (simp add: run_defs sample_defs)
  have m: "exportMetricsForHost ?w web_xml_written ''tok'' ''http://zabbix/api''
      ''/srv/export/hosts/web'' ''10084'' = Inr web_metrics_written"
    by (simp add: run_defs sample_defs)
  from null_triggers_are_skipped [OF p u n, of "''/srv/export/hosts/web''"]
  obtain s' where
    ret: "exportTriggersForHost ?w web_metrics_written ''tok'' ''http://zabbix/api''
            ''/srv/export/hosts/web'' ''10084'' = Inr s'"
    and f: "files s' = files web_metrics_written" "dirs s' = dirs web_metrics_written"
    and c: "sent s' = sent web_metrics_written @
              [(''http://zabbix/api'', TriggerGet ''tok'' [''10084''])]"
      "console s' = console web_metrics_written @
         [TriggersResponse ''10084'' ''triggers'', NoTriggers ''10084'']"
    and loop: "\<forall>s0 s2 exportDir item host rest.
        host_of_item item = Some host \<and> HostID host = ''10084'' \<and>
        host_dir exportDir host = ''/srv/export/hosts/web'' \<and>
        saveToXML ?w (snd (os_MkdirAll ?w s0 ''/srv/export/hosts/web''))
          (''/srv/export/hosts/web'' @ ''/host.xml'') (PHost host) = Inr s2 \<and>
        exportMetricsForHost ?w s2 ''tok'' ''http://zabbix/api'' ''/srv/export/hosts/web'' ''10084''
          = Inr web_metrics_written \<longrightarrow>
        exportHosts ?w ''tok'' ''http://zabbix/api'' exportDir s0 (item # rest) =
          exportHosts ?w ''tok'' ''http://zabbix/api'' exportDir s' rest"
    by blast
  have s': "s' = ?s'"
    using f c by (cases s') simp
  from loop h i d x m
  have round: "exportHosts ?w ''tok'' ''http://zabbix/api'' ''/srv/export'' hosts_listed
      (host_record ''10084'' ''web'' # [host_record ''10085'' ''db'']) =
      exportHosts ?w ''tok'' ''http://zabbix/api'' ''/srv/export'' s' [host_record ''10085'' ''db'']"
    by blast
  have run: "aborted (main ?w) = None \<and>
     (''/srv/export/hosts/web'', ''triggers.json'') \<notin> dom (files (final (main ?w))) \<and>
     (''/srv/export/hosts/web'', ''metrics.json'') \<in> dom (files (final (main ?w))) \<and>
     (''/srv/export/hosts/db'', ''host.xml'') \<in> dom (files (final (main ?w)))"
    by (simp add: run_defs sample_defs)
  from x have x': "saveToXML ?w (snd (os_MkdirAll ?w hosts_listed ''/srv/export/hosts/web''))
      ''/srv/export/hosts/web/host.xml'' (PHost ?web) = Inr web_xml_written"
    by simp
  from p u x' m ret [unfolded s'] round [unfolded s'] run show ?thesis by blast
qed

text \<open>
  Claim C10. When the metric fetch of a host succeeds and decodes and the result of the
  envelope is null, the metric fetcher panics on the assertion of the result to a
  list, after its call and before any file is written. In the loop the panic ends the
  run: neither the trigger fetch of the host nor any remaining host is reached. The
  trigger fetcher, given an envelope with the same null result, returns.
\<close>

theorem null_metrics_panic:
  assumes "post w (length (sent s)) server (ItemGet token hostID) = Inr body"
    and "unmarshal w body = Inr r"
    and "Result r = JNull"
  shows "exportMetricsForHost w s token server hostDir hostID =
           Inl (Panic, s\<lparr>sent := sent s @ [(server, ItemGet token hostID)]\<rparr>) \<and>
         (\<forall>s0 exportDir item host rest.
            host_of_item item = Some host \<and> HostID host = hostID \<and>
            host_dir exportDir host = hostDir \<and>
            saveToXML w (snd (os_MkdirAll w s0 hostDir)) (hostDir @ ''/host.xml'') (PHost host)
              = Inr s \<longrightarrow>
            exportHosts w token server exportDir s0 (item # rest) =
              Inl (Panic, s\<lparr>sent := sent s @ [(server, ItemGet token hostID)]\<rparr>)) \<and>
         (\<forall>t body'.
            post w (length (sent t)) server (TriggerGet token [hostID]) = Inr body' \<and>
            unmarshal w body' = Inr r \<longrightarrow>
            aborted (exportTriggersForHost w t token server hostDir hostID) = None)"
proof -
  have ret: "exportMetricsForHost w s token server hostDir hostID =
      Inl (Panic, s\<lparr>sent := sent s @ [(server, ItemGet token hostID)]\<rparr>)"
    using assms by (simp add: exportMetricsForHost_def Post_def)
  moreover have "\<forall>s0 exportDir item host rest.
      host_of_item item = Some host \<and> HostID host = hostID \<and>
      host_dir exportDir host = hostDir \<and>
      saveToXML w (snd (os_MkdirAll w s0 hostDir)) (hostDir @ ''/host.xml'') (PHost host)
        = Inr s \<longrightarrow>
      exportHosts w token server exportDir s0 (item # rest) =
        Inl (Panic, s\<lparr>sent := sent s @ [(server, ItemGet token hostID)]\<rparr>)"
  proof (intro allI impI, elim conjE)
    fix s0 exportDir item host rest
    assume h: "host_of_item item = Some host" and i: "HostID host = hostID"
      and d: "host_dir exportDir host = hostDir"
      and x: "saveToXML w (snd (os_MkdirAll w s0 hostDir)) (hostDir @ ''/host.xml'') (PHost host)
                = Inr s"
    from x d have "saveToXML w (snd (os_MkdirAll w s0 (host_dir exportDir host)))
        (host_dir exportDir host @ ''/host.xml'') (PHost host) = Inr s"
      by simp
    from exportHosts_round [OF h this, of token server rest] ret i d
    show "exportHosts w token server exportDir s0 (item # rest) =
        Inl (Panic, s\<lparr>sent := sent s @ [(server, ItemGet token hostID)]\<rparr>)"
      by (simp del: exportHosts.simps)
  qed
  moreover have "\<forall>t body'.
      post w (length (sent t)) server (TriggerGet token [hostID]) = Inr body' \<and>
      unmarshal w body' = Inr r \<longrightarrow>
      aborted (exportTriggersForHost w t token server hostDir hostID) = None"
    using assms(3) by (auto simp: exportTriggersForHost_def Post_def Let_def aborted_def)
  ultimately show ?thesis by blast
qed

text \<open>
  The theorem at the sample run whose metric and trigger fetches deliver a null result:
  the metric fetcher panics for the first host \<open>web\<close>, which ends the loop and the run
  after three calls, with host.xml of \<open>web\<close> as the only file; the trigger fetcher, run in
  the same state, returns.
\<close>

theorem null_metrics_panic_witness:
  "post null_results_world (length (sent web_xml_written)) ''http://zabbix/api''
     (ItemGet ''tok'' ''10084'') = Inr ''items'' \<and>
   unmarshal null_results_world ''items'' = Inr (ok_result JNull) \<and>
   saveToXML null_results_world
     (snd (os_MkdirAll null_results_world hosts_listed ''/srv/export/hosts/web''))
     ''/srv/export/hosts/web/host.xml'' (PHost (sample_host ''10084'' ''web'')) =
     Inr web_xml_written \<and>
   exportMetricsForHost null_results_world web_xml_written ''tok'' ''http://zabbix/api''
     ''/srv/export/hosts/web'' ''10084'' =
     Inl (Panic, web_xml_written
            \<lparr>sent := sent web_xml_written @ [(''http://zabbix/api'', ItemGet ''tok'' ''10084'')]\<rparr>) \<and>
   exportHosts null_results_world ''tok'' ''http://zabbix/api'' ''/srv/export'' hosts_listed
     [host_record ''10084'' ''web'', host_record ''10085'' ''db''] =
     Inl (Panic, web_xml_written
            \<lparr>sent := sent web_xml_written @ [(''http://zabbix/api'', ItemGet ''tok'' ''10084'')]\<rparr>) \<and>
   main null_results_world =
     Inl (Panic, web_xml_written
            \<lparr>sent := sent web_xml_written @ [(''http://zabbix/api'', ItemGet ''tok'' ''10084'')]\<rparr>) \<and>
   aborted (exportTriggersForHost null_results_world web_xml_written ''tok'' ''http://zabbix/api''
     ''/srv/export/hosts/web'' ''10084'') = None"
proof -
  let ?w = null_results_world
  let ?web = "sample_host ''10084'' ''web''"
  have p: "post ?w (length (sent web_xml_written)) ''http://zabbix/api''
      (ItemGet ''tok'' ''10084'') = Inr ''items''"
    by (simp add: sample_defs)
  have u: "unmarshal ?w ''items'' = Inr (ok_result JNull)"
    by (simp add: sample_defs)
  have n: "Result (ok_result JNull) = JNull"
    by (simp add: ok_result_def)
  have h: "host_of_item (host_record ''10084'' ''web'') = Some ?web"
    by (simp add: run_defs sample_defs)
  have i: "HostID ?web = ''10084''" and d: "host_dir ''/srv/export'' ?web = ''/srv/export/hosts/web''"
    by (simp_all add: sample_host_def host_dir_def)
  have x: "saveToXML ?w (snd (os_MkdirAll ?w hosts_listed ''/srv/export/hosts/web''))
      (''/srv/export/hosts/web'' @ ''/host.xml'') (PHost ?web) = Inr web_xml_written"
    by (simp add: run_defs sample_defs)
  have tp: "post ?w (length (sent web_xml_written)) ''http://zabbix/api''
      (TriggerGet ''tok'' [''10084'']) = Inr ''triggers''"
    and tu: "unmarshal ?w ''triggers'' = Inr (ok_result JNull)"
    by (simp_all add: sample_defs)
  note all = null_metrics_panic [OF p u n, of "''/srv/export/hosts/web''"]
  from all have ret: "exportMetricsForHost ?w web_xml_written ''tok'' ''http://zabbix/api''
      ''/srv/export/hosts/web'' ''10084'' =
      Inl (Panic, web_xml_written
             \<lparr>sent := sent web_xml_written @ [(''http://zabbix/api'', ItemGet ''tok'' ''10084'')]\<rparr>)"
    by blast
  from all h i d x have round: "exportHosts ?w ''tok'' ''http://zabbix/api'' ''/srv/export'' hosts_listed
      (host_record ''10084'' ''web'' # [host_record ''10085'' ''db'']) =
      Inl (Panic, web_xml_written
             \<lparr>sent := sent web_xml_written @ [(''http://zabbix/api'', ItemGet ''tok'' ''10084'')]\<rparr>)"
    by blast
  from all tp tu have trg: "aborted (exportTriggersForHost ?w web_xml_written ''tok''
      ''http://zabbix/api'' ''/srv/export/hosts/web'' ''10084'') = None"
    by blast
  have m: "main ?w =
     Inl (Panic, web_xml_written
            \<lparr>sent := sent web_xml_written @ [(''http://zabbix/api'', ItemGet ''tok'' ''10084'')]\<rparr>)"
    by (simp add: run_defs sample_defs)
  from x have x': "saveToXML ?w (snd (os_MkdirAll ?w hosts_listed ''/srv/export/hosts/web''))
      ''/srv/export/hosts/web/host.xml'' (PHost ?web) = Inr web_xml_written"
    by simp
  from p u x' ret round m trg show ?thesis by blast
qed

end
